theory Spec2Isabelle
  imports Main
begin

section \<open>rebirth-http: interceptor chain and declarative request assembly\<close>

text \<open>
  A shallow embedding of \<^verbatim>\<open>src/rebirth-http.ts\<close>. Functions of the source keep their
  names. Classes of the Angular framework that the source only calls (\<^verbatim>\<open>HttpRequest\<close>,
  \<^verbatim>\<open>HttpHeaders\<close>, \<^verbatim>\<open>HttpParams\<close>) are modelled by the documented contract of the
  operations the source uses; each such definition says so. An older copy of the file,
  written against the previous HTTP module of the framework, has the same interceptor
  chain; where the two differ (mutable containers of headers and query parameters, a
  truthiness filter on query arguments, an error hook on observables), the model follows
  \<^verbatim>\<open>src/rebirth-http.ts\<close>.
\<close>

subsection \<open>Errors\<close>

text \<open>
  \<^verbatim>\<open>throw new Error(msg)\<close> is \<open>Inl (Error msg)\<close>; calling a value that is not a function
  is \<open>Inl (TypeError msg)\<close>.
\<close>

datatype error = Error string | TypeError string

subsection \<open>JavaScript arrays in a store\<close>

text \<open>
  An array is an object with identity: \<^verbatim>\<open>push\<close> and \<^verbatim>\<open>reverse\<close> change the array they
  are called on, \<^verbatim>\<open>filter\<close> returns a new array. The store is the list of all arrays
  allocated so far and a reference is an index into it; allocation appends.
\<close>

type_synonym ref = nat

definition Array_new :: "'a list list \<Rightarrow> ref \<times> 'a list list" where
  "Array_new h = (length h, h @ [[]])"

definition Array_push :: "ref \<Rightarrow> 'a \<Rightarrow> 'a list list \<Rightarrow> 'a list list" where
  "Array_push a x h = h[a := (h ! a) @ [x]]"

definition Array_filter :: "('a \<Rightarrow> bool) \<Rightarrow> ref \<Rightarrow> 'a list list \<Rightarrow> ref \<times> 'a list list" where
  "Array_filter P a h = (length h, h @ [filter P (h ! a)])"

definition Array_reverse :: "ref \<Rightarrow> 'a list list \<Rightarrow> ref \<times> 'a list list" where
  "Array_reverse a h = (a, h[a := rev (h ! a)])"

text \<open>
  \<^verbatim>\<open>reduce(callback, initial)\<close>: left to right; an exception of the callback ends the
  loop and propagates.
\<close>

fun reduce :: "('b \<Rightarrow> 'a \<Rightarrow> error + 'b) \<Rightarrow> 'a list \<Rightarrow> 'b \<Rightarrow> error + 'b" where
  "reduce f [] acc = Inr acc"
| "reduce f (x # xs) acc = (case f acc x of Inl e \<Rightarrow> Inl e | Inr acc' \<Rightarrow> reduce f xs acc')"

definition Array_reduce :: "('b \<Rightarrow> 'a \<Rightarrow> error + 'b) \<Rightarrow> 'b \<Rightarrow> ref \<Rightarrow> 'a list list \<Rightarrow> error + 'b" where
  "Array_reduce f initial a h = reduce f (h ! a) initial"

subsection \<open>Interceptors and the provider\<close>

text \<open>
  \<^verbatim>\<open>interface RebirthHttpInterceptor { request?: ...; response?: ... }\<close>. A missing member
  is \<open>None\<close>. A callback that returns nothing (\<^verbatim>\<open>void\<close>) returns \<open>None\<close>; requests and
  events are objects, hence truthy, so \<^verbatim>\<open>f(x) || y\<close> is \<open>y\<close> exactly when \<open>f x = None\<close>.
  The second argument of \<^verbatim>\<open>response\<close> is optional in the source. Callbacks are functions
  of their arguments; what a callback does besides returning is outside the model.
\<close>

record ('q, 'r) RebirthHttpInterceptor =
  request :: "('q \<Rightarrow> 'q option) option"
  response :: "('r \<Rightarrow> 'q option \<Rightarrow> 'r option) option"

type_synonym ('q, 'r) store = "('q, 'r) RebirthHttpInterceptor list list"

record RebirthHttpProvider =
  interceptors :: ref

definition RebirthHttpProvider_new ::
    "('q, 'r) store \<Rightarrow> RebirthHttpProvider \<times> ('q, 'r) store" where
  "RebirthHttpProvider_new h = (let (a, h') = Array_new h in (\<lparr>interceptors = a\<rparr>, h'))"

definition getInterceptors :: "RebirthHttpProvider \<Rightarrow> ref" where
  "getInterceptors this = interceptors this"

definition addInterceptor ::
    "('q, 'r) RebirthHttpInterceptor \<Rightarrow> RebirthHttpProvider \<Rightarrow> ('q, 'r) store
      \<Rightarrow> RebirthHttpProvider \<times> ('q, 'r) store" where
  "addInterceptor interceptor this h = (this, Array_push (interceptors this) interceptor h)"

definition addRequestInterceptor ::
    "('q \<Rightarrow> 'q option) \<Rightarrow> RebirthHttpProvider \<Rightarrow> ('q, 'r) store
      \<Rightarrow> RebirthHttpProvider \<times> ('q, 'r) store" where
  "addRequestInterceptor interceptor this h =
     addInterceptor
       \<lparr>request = Some (\<lambda>req. Some (case interceptor req of None \<Rightarrow> req | Some r \<Rightarrow> r)),
        response = None\<rparr> this h"

definition addResponseInterceptor ::
    "('r \<Rightarrow> 'r option) \<Rightarrow> RebirthHttpProvider \<Rightarrow> ('q, 'r) store
      \<Rightarrow> RebirthHttpProvider \<times> ('q, 'r) store" where
  "addResponseInterceptor interceptor this h =
     addInterceptor
       \<lparr>request = None,
        response = Some (\<lambda>res rq. Some (case interceptor res of None \<Rightarrow> res | Some r \<Rightarrow> r))\<rparr>
       this h"

text \<open>
  \<^verbatim>\<open>handleRequest\<close>: \<^verbatim>\<open>this.interceptors.filter(item => !!item.request)
  .reduce((req, item) => item.request(req) || req, req)\<close>.
\<close>

definition handleRequest ::
    "RebirthHttpProvider \<Rightarrow> 'q \<Rightarrow> ('q, 'r) store \<Rightarrow> (error + 'q) \<times> ('q, 'r) store" where
  "handleRequest this req h =
     (let (filtered, h1) = Array_filter (\<lambda>item. request item \<noteq> None) (interceptors this) h
      in (Array_reduce
            (\<lambda>acc item. case request item of
                 None \<Rightarrow> Inl (TypeError ''item.request is not a function'')
               | Some f \<Rightarrow> Inr (case f acc of None \<Rightarrow> acc | Some r \<Rightarrow> r))
            req filtered h1,
          h1))"

text \<open>
  \<^verbatim>\<open>handleResponse\<close>: \<^verbatim>\<open>this.interceptors.filter(item => !!item.response).reverse()
  .reduce((httpEvent, item) => item.response(httpEvent, request) || response, response)\<close>.
  The fallback of \<^verbatim>\<open>||\<close> is the parameter \<^verbatim>\<open>response\<close>, not \<^verbatim>\<open>httpEvent\<close>.
\<close>

definition handleResponse ::
    "RebirthHttpProvider \<Rightarrow> 'r \<Rightarrow> 'q option \<Rightarrow> ('q, 'r) store
      \<Rightarrow> (error + 'r) \<times> ('q, 'r) store" where
  "handleResponse this res rq h =
     (let (filtered, h1) = Array_filter (\<lambda>item. response item \<noteq> None) (interceptors this) h;
          (reversed, h2) = Array_reverse filtered h1
      in (Array_reduce
            (\<lambda>httpEvent item. case response item of
                 None \<Rightarrow> Inl (TypeError ''item.response is not a function'')
               | Some f \<Rightarrow> Inr (case f httpEvent rq of None \<Rightarrow> res | Some r \<Rightarrow> r))
            res reversed h2,
          h2))"

subsection \<open>The folds as the specification words them\<close>

text \<open>
  Registration order, left to right; an interceptor without \<^verbatim>\<open>request\<close> is skipped; the
  accumulator becomes \<^verbatim>\<open>interceptor.request(accumulator) ?? accumulator\<close>.
\<close>

fun request_chain :: "('q, 'r) RebirthHttpInterceptor list \<Rightarrow> 'q \<Rightarrow> 'q" where
  "request_chain [] acc = acc"
| "request_chain (i # rest) acc =
     request_chain rest
       (case request i of
          None \<Rightarrow> acc
        | Some f \<Rightarrow> (case f acc of None \<Rightarrow> acc | Some r \<Rightarrow> r))"

text \<open>
  Reverse registration order: the interceptors registered after \<open>i\<close> run before \<open>i\<close>; an
  interceptor without \<^verbatim>\<open>response\<close> is skipped; the accumulator becomes
  \<^verbatim>\<open>interceptor.response(accumulator) ?? original\<close>.
\<close>

fun response_chain ::
    "('q, 'r) RebirthHttpInterceptor list \<Rightarrow> 'r \<Rightarrow> 'q option \<Rightarrow> 'r" where
  "response_chain [] original rq = original"
| "response_chain (i # rest) original rq =
     (let acc = response_chain rest original rq
      in case response i of
           None \<Rightarrow> acc
         | Some f \<Rightarrow> (case f acc rq of None \<Rightarrow> original | Some r \<Rightarrow> r))"

subsection \<open>The global \<^verbatim>\<open>event\<close> and \<^verbatim>\<open>addResponseErrorInterceptor\<close>\<close>

text \<open>
  The events of the transport, as far as the source looks at them: an \<^verbatim>\<open>HttpResponse\<close>
  carries a status and a body, and \<^verbatim>\<open>ok\<close> is true for a status from 200 to 299.
\<close>

datatype HttpEvent =
    HttpSentEvent
  | HttpHeaderResponse nat
  | HttpResponse nat string
  | HttpProgressEvent nat
  | HttpUserEvent string

definition failed_response :: "HttpEvent \<Rightarrow> bool" where
  "failed_response ev =
     (case ev of HttpResponse status b \<Rightarrow> \<not> (200 \<le> status \<and> status < 300) | _ \<Rightarrow> False)"

text \<open>
  The wrapper of \<^verbatim>\<open>addResponseErrorInterceptor\<close> tests
  \<^verbatim>\<open>event instanceof HttpResponse && !event.ok\<close>. No parameter or variable of the file is
  called \<^verbatim>\<open>event\<close>: the name is the global of the browser (\<^verbatim>\<open>window.event\<close>, declared
  \<^verbatim>\<open>Event | undefined\<close>), so the model takes its value as a parameter. A browser sets it
  to \<^verbatim>\<open>undefined\<close> or to the DOM event being dispatched; \<open>EventValue\<close> is there for a
  script that assigns something else.
\<close>

datatype global_event = EventUndefined | EventDom | EventValue HttpEvent

definition addResponseErrorInterceptor ::
    "global_event \<Rightarrow> ('r \<Rightarrow> 'r option) \<Rightarrow> RebirthHttpProvider \<Rightarrow> ('q, 'r) store
      \<Rightarrow> RebirthHttpProvider \<times> ('q, 'r) store" where
  "addResponseErrorInterceptor event interceptor this h =
     addInterceptor
       \<lparr>request = None,
        response = Some (\<lambda>res rq.
          if (case event of EventValue ev \<Rightarrow> failed_response ev | _ \<Rightarrow> False)
          then Some (case interceptor res of None \<Rightarrow> res | Some r \<Rightarrow> r)
          else None)\<rparr>
       this h"

subsection \<open>Header multi-map of the framework\<close>

text \<open>
  \<^verbatim>\<open>HttpHeaders\<close> belongs to Angular; the source calls its constructor, \<^verbatim>\<open>append\<close>, and
  (through \<^verbatim>\<open>HttpRequest.clone({setHeaders})\<close>) \<^verbatim>\<open>set\<close>. Its contract: names are
  compared in lower case; every name maps to a list of values, in insertion order of the
  names; an instance is immutable, and \<^verbatim>\<open>set\<close> and \<^verbatim>\<open>append\<close> return a changed copy;
  \<^verbatim>\<open>set\<close> replaces the values of a name and \<^verbatim>\<open>append\<close> adds to them; an empty value
  list changes nothing. A value that is one string is the one-element list.
\<close>

type_synonym HttpHeaders = "(string \<times> string list) list"

text \<open>The \<^verbatim>\<open>set\<close> of a JavaScript \<^verbatim>\<open>Map\<close>: a known key keeps its place.\<close>

primrec Map_set :: "'k \<Rightarrow> 'v \<Rightarrow> ('k \<times> 'v) list \<Rightarrow> ('k \<times> 'v) list" where
  "Map_set k v [] = [(k, v)]"
| "Map_set k v (p # ps) = (if fst p = k then (k, v) # ps else p # Map_set k v ps)"

definition toLowerCase_char :: "char \<Rightarrow> char" where
  "toLowerCase_char c =
     (let n = (of_char c :: nat) in if 65 \<le> n \<and> n \<le> 90 then char_of (n + 32) else c)"

definition toLowerCase :: "string \<Rightarrow> string" where
  "toLowerCase s = map toLowerCase_char s"

definition HttpHeaders_set :: "HttpHeaders \<Rightarrow> string \<Rightarrow> string list \<Rightarrow> HttpHeaders" where
  "HttpHeaders_set hs name v = (if v = [] then hs else Map_set (toLowerCase name) v hs)"

definition HttpHeaders_getAll :: "HttpHeaders \<Rightarrow> string \<Rightarrow> string list option" where
  "HttpHeaders_getAll hs name = map_of hs (toLowerCase name)"

definition HttpHeaders_append :: "HttpHeaders \<Rightarrow> string \<Rightarrow> string list \<Rightarrow> HttpHeaders" where
  "HttpHeaders_append hs name v =
     (if v = [] then hs
      else Map_set (toLowerCase name)
             ((case HttpHeaders_getAll hs name of None \<Rightarrow> [] | Some old \<Rightarrow> old) @ v) hs)"

text \<open>\<^verbatim>\<open>new HttpHeaders(obj)\<close>: empty for \<^verbatim>\<open>null\<close>, else one \<^verbatim>\<open>set\<close> per own key.\<close>

definition HttpHeaders_new :: "(string \<times> string list) list option \<Rightarrow> HttpHeaders" where
  "HttpHeaders_new obj =
     (case obj of
        None \<Rightarrow> []
      | Some kvs \<Rightarrow> foldl (\<lambda>hs (name, v). HttpHeaders_set hs name v) [] kvs)"

subsection \<open>Requests and the interceptors of \<^verbatim>\<open>baseUrl\<close> and \<^verbatim>\<open>headers\<close>\<close>

datatype jsval =
    JUndefined
  | JNull
  | JBool bool
  | JNum int
  | JStr string
  | instanceof_Date: JDate (getTime: int) (dateString: string)
  | Array_isArray: JArr (elements: "jsval list")
  | JObj (properties: "(string \<times> jsval) list")

text \<open>
  \<open>JNum\<close> is an integral number; \<open>JDate t s\<close> is a \<^verbatim>\<open>Date\<close> whose \<^verbatim>\<open>getTime()\<close> is \<open>t\<close>
  and whose \<^verbatim>\<open>toString()\<close>, which depends on the time zone of the host, is \<open>s\<close>;
  \<open>JObj\<close> lists the own enumerable properties of a plain object in the order of
  \<^verbatim>\<open>for ... in\<close>. The discriminators are \<^verbatim>\<open>v instanceof Date\<close> and
  \<^verbatim>\<open>Array.isArray(v)\<close>.
\<close>

record HttpRequest =
  req_method :: string
  req_url :: string
  req_headers :: HttpHeaders
  req_body :: jsval

text \<open>\<^verbatim>\<open>/^https?:/.test(url)\<close>\<close>

definition test_http_scheme :: "string \<Rightarrow> bool" where
  "test_http_scheme u = (take 5 u = ''http:'' \<or> take 6 u = ''https:'')"

text \<open>\<^verbatim>\<open>s.replace(/\/$/, "")\<close> and \<^verbatim>\<open>s.replace(/^\//, "")\<close>\<close>

definition ends_with_slash :: "string \<Rightarrow> bool" where
  "ends_with_slash s = (case rev s of [] \<Rightarrow> False | c # cs \<Rightarrow> c = CHR ''/'')"

definition starts_with_slash :: "string \<Rightarrow> bool" where
  "starts_with_slash s = (case s of [] \<Rightarrow> False | c # cs \<Rightarrow> c = CHR ''/'')"

definition replace_trailing_slash :: "string \<Rightarrow> string" where
  "replace_trailing_slash s = (if ends_with_slash s then butlast s else s)"

definition replace_leading_slash :: "string \<Rightarrow> string" where
  "replace_leading_slash s = (if starts_with_slash s then tl s else s)"

text \<open>
  The \<^verbatim>\<open>request\<close> function that \<^verbatim>\<open>baseUrl(host, excludes)\<close> registers. An exclude
  pattern is the predicate its \<^verbatim>\<open>test\<close> computes (a pattern without the flags
  \<^verbatim>\<open>g\<close> and \<^verbatim>\<open>y\<close>, whose \<^verbatim>\<open>test\<close> depends on the string alone);
  \<^verbatim>\<open>excludes.some(...)\<close> is \<open>list_ex\<close>. The function assigns to the captured variable
  \<^verbatim>\<open>host\<close> (\<^verbatim>\<open>host = host.replace(/\/$/, "")\<close>), so the variable is state: the
  function takes its value and returns the new one with the request.
\<close>

definition baseUrl_request ::
    "(string \<Rightarrow> bool) list \<Rightarrow> string \<Rightarrow> HttpRequest \<Rightarrow> string \<times> HttpRequest" where
  "baseUrl_request excludes host req =
     (if test_http_scheme (req_url req) then (host, req)
      else if list_ex (\<lambda>t. t (req_url req)) excludes then (host, req)
      else (let host' = replace_trailing_slash host;
                u = replace_leading_slash (req_url req)
            in (host', req\<lparr>req_url := host' @ ''/'' @ u\<rparr>)))"

text \<open>
  \<^verbatim>\<open>request.clone({ setHeaders: headers })\<close>: the framework folds \<^verbatim>\<open>set\<close> over the own
  keys of the object.
\<close>

definition clone_setHeaders :: "HttpRequest \<Rightarrow> (string \<times> string list) list \<Rightarrow> HttpRequest" where
  "clone_setHeaders req kvs =
     req\<lparr>req_headers := foldl (\<lambda>hs (name, v). HttpHeaders_set hs name v) (req_headers req) kvs\<rparr>"

definition headers ::
    "(string \<times> string list) list \<Rightarrow> RebirthHttpProvider \<Rightarrow> (HttpRequest, 'r) store
      \<Rightarrow> RebirthHttpProvider \<times> (HttpRequest, 'r) store" where
  "headers hdrs this h =
     addInterceptor
       \<lparr>request = Some (\<lambda>req. Some (clone_setHeaders req hdrs)), response = None\<rparr> this h"

text \<open>
  What the specification asks of the rewritten URL: \<open>h\<close> is the host less at most one
  trailing slash, \<open>p\<close> the path less at most one leading slash, the result is
  \<open>h + '/' + p\<close>, and the slash of the join is the only one there.
\<close>

definition one_slash_join :: "string \<Rightarrow> string \<Rightarrow> string \<Rightarrow> bool" where
  "one_slash_join host path result =
     list_ex (\<lambda>h. list_ex (\<lambda>p.
         result = h @ ''/'' @ p \<and> \<not> ends_with_slash h \<and> \<not> starts_with_slash p)
       [path, replace_leading_slash path])
     [host, replace_trailing_slash host]"

subsection \<open>Parameter decorators\<close>

text \<open>
  \<^verbatim>\<open>paramObj = { key: key, parameterIndex: parameterIndex }\<close>; the key is \<^verbatim>\<open>undefined\<close>
  when the decorator was applied to no argument.
\<close>

record param =
  key :: "string option"
  parameterIndex :: nat

text \<open>
  The decorated class keeps one array of \<open>param\<close> under each metadata key; \<open>None\<close> is a
  property that is not set.
\<close>

type_synonym target = "string \<Rightarrow> param list option"

text \<open>\<^verbatim>\<open>!key\<close> is true for \<^verbatim>\<open>undefined\<close> and for the empty string.\<close>

definition falsy_key :: "string option \<Rightarrow> bool" where
  "falsy_key k = (case k of None \<Rightarrow> True | Some s \<Rightarrow> s = [])"

definition paramBuilder ::
    "string \<Rightarrow> bool \<Rightarrow> string option \<Rightarrow> error + (target \<Rightarrow> string \<Rightarrow> nat \<Rightarrow> target)" where
  "paramBuilder paramName optional k =
     (if \<not> optional \<and> falsy_key k then Inl (Error (paramName @ '' Key is required!''))
      else Inr (\<lambda>tgt propertyKey idx.
        let metadataKey = propertyKey @ ''_'' @ paramName @ ''_parameters'';
            paramObj = \<lparr>key = k, parameterIndex = idx\<rparr>
        in case tgt metadataKey of
             Some ps \<Rightarrow> tgt(metadataKey \<mapsto> ps @ [paramObj])
           | None \<Rightarrow> tgt(metadataKey \<mapsto> [paramObj])))"

definition Path :: "string option \<Rightarrow> error + (target \<Rightarrow> string \<Rightarrow> nat \<Rightarrow> target)" where
  "Path = paramBuilder ''Path'' False"

definition Query :: "string option \<Rightarrow> error + (target \<Rightarrow> string \<Rightarrow> nat \<Rightarrow> target)" where
  "Query = paramBuilder ''Query'' True"

definition Body :: "error + (target \<Rightarrow> string \<Rightarrow> nat \<Rightarrow> target)" where
  "Body = paramBuilder ''Body'' False (Some ''Body'')"

definition Header :: "string option \<Rightarrow> error + (target \<Rightarrow> string \<Rightarrow> nat \<Rightarrow> target)" where
  "Header = paramBuilder ''Header'' False"

text \<open>
  The four roles of a binding and, for each, what the declaration of a binding of that
  role evaluates when the key \<open>k\<close> is written (\<open>None\<close> when no key is written).
  \<^verbatim>\<open>Path\<close>, \<^verbatim>\<open>Query\<close> and \<^verbatim>\<open>Header\<close> are applied to the key. \<^verbatim>\<open>Body\<close> is
  \<^verbatim>\<open>paramBuilder("Body")("Body")\<close>: the decorator itself, which takes no key, so a
  declaration of that role never passes one.
\<close>

datatype role = PathRole | QueryRole | BodyRole | HeaderRole

fun declare_binding ::
    "role \<Rightarrow> string option \<Rightarrow> error + (target \<Rightarrow> string \<Rightarrow> nat \<Rightarrow> target)" where
  "declare_binding PathRole k = Path k"
| "declare_binding QueryRole k = Query k"
| "declare_binding BodyRole k = Body"
| "declare_binding HeaderRole k = Header k"

subsection \<open>Values of call arguments\<close>

definition digit_char :: "nat \<Rightarrow> char" where
  "digit_char d = char_of (48 + d)"

fun show_nat :: "nat \<Rightarrow> string" where
  "show_nat n = (if n < 10 then [digit_char n] else show_nat (n div 10) @ [digit_char (n mod 10)])"

declare show_nat.simps [simp del]

text \<open>The decimal numeral of an integral number (below \<open>10\<^sup>2\<^sup>1\<close> in absolute value).\<close>

definition show_int :: "int \<Rightarrow> string" where
  "show_int i = (if i < 0 then CHR ''-'' # show_nat (nat (- i)) else show_nat (nat i))"

fun join :: "string \<Rightarrow> string list \<Rightarrow> string" where
  "join sep [] = []"
| "join sep [x] = x"
| "join sep (x # y # ys) = x @ sep @ join sep (y # ys)"

text \<open>
  \<^verbatim>\<open>String(v)\<close> and \<^verbatim>\<open>v.toString()\<close>. An array joins its elements with commas, an
  element that is \<^verbatim>\<open>undefined\<close> or \<^verbatim>\<open>null\<close> giving the empty string.
\<close>

fun toString :: "jsval \<Rightarrow> string" where
  "toString JUndefined = ''undefined''"
| "toString JNull = ''null''"
| "toString (JBool b) = (if b then ''true'' else ''false'')"
| "toString (JNum n) = show_int n"
| "toString (JStr s) = s"
| "toString (JDate t s) = s"
| "toString (JArr xs) =
     join '','' (map (\<lambda>x. if x = JUndefined \<or> x = JNull then [] else toString x) xs)"
| "toString (JObj kvs) = ''[object Object]''"

text \<open>\<^verbatim>\<open>xs.join(',')\<close>\<close>

definition Array_join :: "jsval list \<Rightarrow> string" where
  "Array_join xs =
     join '','' (map (\<lambda>x. if x = JUndefined \<or> x = JNull then [] else toString x) xs)"

fun typeof :: "jsval \<Rightarrow> string" where
  "typeof JUndefined = ''undefined''"
| "typeof JNull = ''object''"
| "typeof (JBool b) = ''boolean''"
| "typeof (JNum n) = ''number''"
| "typeof (JStr s) = ''string''"
| "typeof (JDate t s) = ''object''"
| "typeof (JArr xs) = ''object''"
| "typeof (JObj kvs) = ''object''"

definition isObject :: "jsval \<Rightarrow> bool" where
  "isObject v = (v \<noteq> JNull \<and> typeof v = ''object'')"

definition isUndefined :: "jsval \<Rightarrow> bool" where
  "isUndefined v = (typeof v = ''undefined'')"

definition isEmpty :: "jsval \<Rightarrow> bool" where
  "isEmpty v = (typeof v = ''undefined'' \<or> v = JNull)"

text \<open>\<^verbatim>\<open>args[i]\<close>: \<^verbatim>\<open>undefined\<close> beyond the arguments passed.\<close>

definition arg :: "jsval list \<Rightarrow> nat \<Rightarrow> jsval" where
  "arg args i = (if i < length args then args ! i else JUndefined)"

subsection \<open>The query section of \<^verbatim>\<open>methodBuilder\<close>\<close>

text \<open>
  \<^verbatim>\<open>HttpParams\<close> belongs to Angular; the source calls its constructor and \<^verbatim>\<open>set\<close>. Its
  contract: an instance is immutable, \<^verbatim>\<open>set\<close> returns a copy in which the parameter has
  the one value given, a known parameter keeping its place. The parameter name of a
  \<^verbatim>\<open>Query\<close> binding may be \<^verbatim>\<open>undefined\<close>. A value is kept as the string that the
  query string will show for it.
\<close>

type_synonym HttpParams = "(string option \<times> string) list"

definition HttpParams_set :: "HttpParams \<Rightarrow> string option \<Rightarrow> string \<Rightarrow> HttpParams" where
  "HttpParams_set ps k v = Map_set k v ps"

text \<open>
  The callback of \<^verbatim>\<open>reduce\<close> over the \<^verbatim>\<open>Query\<close> bindings, with the \<^verbatim>\<open>if\<close> chain of
  the source. In the branch of an object the loop assigns
  \<^verbatim>\<open>result = ps.set(k, value[k])\<close> for every own key: each round starts from \<open>ps\<close>, not
  from \<open>result\<close>.
\<close>

definition query_reducer :: "jsval list \<Rightarrow> HttpParams \<Rightarrow> param \<Rightarrow> HttpParams" where
  "query_reducer args ps p =
     (let v = arg args (parameterIndex p); result = ps
      in if instanceof_Date v then HttpParams_set ps (key p) (show_int (getTime v))
         else if Array_isArray v then HttpParams_set ps (key p) (Array_join (elements v))
         else if isObject v then
           foldl (\<lambda>result (k, w). HttpParams_set ps (Some k) (toString w)) result (properties v)
         else if \<not> isEmpty v then HttpParams_set ps (key p) (toString v)
         else HttpParams_set ps (key p) [])"

definition methodBuilder_query :: "param list option \<Rightarrow> jsval list \<Rightarrow> HttpParams" where
  "methodBuilder_query pQuery args =
     (let params = []
      in case pQuery of
           None \<Rightarrow> params
         | Some ps \<Rightarrow>
             foldl (query_reducer args) params
               (filter (\<lambda>p. \<not> isUndefined (arg args (parameterIndex p))) ps))"

subsection \<open>The header section of \<^verbatim>\<open>methodBuilder\<close>\<close>

text \<open>
  The value of a header taken from a call argument: an array gives its elements, any
  other value the one string it converts to.
\<close>

definition header_value :: "jsval \<Rightarrow> string list" where
  "header_value v = (case v of JArr xs \<Rightarrow> map toString xs | _ \<Rightarrow> [toString v])"

text \<open>
  \<^verbatim>\<open>let headers = new HttpHeaders(this.getDefaultHeaders())\<close>, then the two loops, whose
  bodies are the statements \<^verbatim>\<open>headers.append(k, descriptor.headers[k]);\<close> and
  \<^verbatim>\<open>headers.append(pHeader[k].key, args[pHeader[k].parameterIndex]);\<close>. The value of
  \<^verbatim>\<open>append\<close> is not assigned to anything, and \<^verbatim>\<open>headers\<close> goes into the options
  of the request. A \<^verbatim>\<open>Header\<close> binding has a key, by \<open>paramBuilder\<close>; \<^verbatim>\<open>append\<close> of a
  name that is \<^verbatim>\<open>undefined\<close> is a \<open>TypeError\<close> of the copy it returns.
\<close>

definition methodBuilder_headers ::
    "(string \<times> string list) list option \<Rightarrow> (string \<times> string list) list
      \<Rightarrow> param list option \<Rightarrow> jsval list \<Rightarrow> HttpHeaders" where
  "methodBuilder_headers defaultHeaders descriptor_headers pHeader args =
     (let headers = HttpHeaders_new defaultHeaders;
          unused1 = map (\<lambda>(k, v). HttpHeaders_append headers k v) descriptor_headers;
          unused2 =
            (case pHeader of
               None \<Rightarrow> []
             | Some ps \<Rightarrow>
                 map (\<lambda>p. case key p of
                        None \<Rightarrow> Inl (TypeError ''name is undefined'')
                      | Some k \<Rightarrow>
                          Inr (HttpHeaders_append headers k
                                 (header_value (arg args (parameterIndex p))))) ps)
      in headers)"

text \<open>
  The header stages as the specification words them: the class defaults, then an
  \<^verbatim>\<open>append\<close> for every header of the \<^verbatim>\<open>Headers\<close> annotation, then an \<^verbatim>\<open>append\<close> for
  every \<^verbatim>\<open>Header\<close> binding, each stage working on the result of the one before.
\<close>

definition staged_headers ::
    "(string \<times> string list) list option \<Rightarrow> (string \<times> string list) list
      \<Rightarrow> param list option \<Rightarrow> jsval list \<Rightarrow> HttpHeaders" where
  "staged_headers defaultHeaders descriptor_headers pHeader args =
     (let stage1 = HttpHeaders_new defaultHeaders;
          stage2 = foldl (\<lambda>hs (k, v). HttpHeaders_append hs k v) stage1 descriptor_headers
      in foldl (\<lambda>hs p. case key p of
                  None \<Rightarrow> hs
                | Some k \<Rightarrow> HttpHeaders_append hs k (header_value (arg args (parameterIndex p))))
           stage2 (case pHeader of None \<Rightarrow> [] | Some ps \<Rightarrow> ps))"

text \<open>
  The flattening of an object as the specification words it: every own key and value
  becomes a parameter of the query.
\<close>

definition flatten_object :: "HttpParams \<Rightarrow> (string \<times> jsval) list \<Rightarrow> HttpParams" where
  "flatten_object ps kvs = foldl (\<lambda>acc (k, w). HttpParams_set acc (Some k) (toString w)) ps kvs"

section \<open>Theorems\<close>

subsection \<open>The interceptor chain\<close>

lemma reduce_append:
  "reduce f (xs @ ys) acc = (case reduce f xs acc of Inl e \<Rightarrow> Inl e | Inr a \<Rightarrow> reduce f ys a)"
  by (induction xs arbitrary: acc) (auto split: sum.splits)

lemma reduce_request_filter:
  "reduce (\<lambda>acc item. case request item of
               None \<Rightarrow> Inl (TypeError msg)
             | Some f \<Rightarrow> Inr (case f acc of None \<Rightarrow> acc | Some r \<Rightarrow> r))
      (filter (\<lambda>item. request item \<noteq> None) xs) acc
   = Inr (request_chain xs acc)"
  by (induction xs arbitrary: acc) (auto split: option.splits)

lemma reduce_response_rev_filter:
  "reduce (\<lambda>httpEvent item. case response item of
               None \<Rightarrow> Inl (TypeError msg)
             | Some f \<Rightarrow> Inr (case f httpEvent rq of None \<Rightarrow> res | Some r \<Rightarrow> r))
      (rev (filter (\<lambda>item. response item \<noteq> None) xs)) res
   = Inr (response_chain xs res rq)"
  by (induction xs) (auto simp: reduce_append Let_def split: option.splits)

lemma handleRequest_store:
  "snd (handleRequest this req h) =
     h @ [filter (\<lambda>item. request item \<noteq> None) (h ! interceptors this)]"
  by (simp add: handleRequest_def Array_filter_def)

lemma handleResponse_store:
  "snd (handleResponse this res rq h) =
     h @ [rev (filter (\<lambda>item. response item \<noteq> None) (h ! interceptors this))]"
  by (simp add: handleResponse_def Array_filter_def Array_reverse_def)

text \<open>
  C1. Whatever interceptors are registered and whatever the initial response,
  \<^verbatim>\<open>handleResponse\<close> throws nothing and returns the fold of \<open>response_chain\<close> over the
  registered list: the interceptors that have a \<^verbatim>\<open>response\<close> function run in reverse
  registration order, and when such a function returns nothing the accumulator becomes
  the response that was passed to \<^verbatim>\<open>handleResponse\<close>, not the running accumulator.
\<close>

theorem handleResponse_reverse_fold_original_fallback:
  "fst (handleResponse this res rq h) = Inr (response_chain (h ! interceptors this) res rq)"
  by (simp add: handleResponse_def Array_filter_def Array_reverse_def Array_reduce_def
      reduce_response_rev_filter del: not_None_eq)

text \<open>
  Doubling, a request-only interceptor, adding one: from 1 the last registered runs
  first, \<open>(1 + 1) * 2\<close>. An interceptor that returns nothing at 105, registered before
  one that adds 100: from 5 it sees 105, returns nothing, and the result is the original
  5, not 105.
\<close>

theorem handleResponse_reverse_fold_original_fallback_witness:
  "fst (handleResponse \<lparr>interceptors = 0\<rparr> (1::nat) (None :: nat option)
          [[\<lparr>request = None, response = Some (\<lambda>r q. Some (r * 2))\<rparr>,
            \<lparr>request = Some (\<lambda>q. Some q), response = None\<rparr>,
            \<lparr>request = None, response = Some (\<lambda>r q. if r = 5 then None else Some (r + 1))\<rparr>]])
     = Inr 4
   \<and> fst (handleResponse \<lparr>interceptors = 0\<rparr> (5::nat) (None :: nat option)
          [[\<lparr>request = None, response = Some (\<lambda>r q. if r = 105 then None else Some (r * 2))\<rparr>,
            \<lparr>request = None, response = Some (\<lambda>r q. Some (r + 100))\<rparr>]])
     = Inr 5"
  using handleResponse_reverse_fold_original_fallback
          [of "\<lparr>interceptors = 0\<rparr>" "1::nat" "None :: nat option"
              "[[\<lparr>request = None, response = Some (\<lambda>r q. Some (r * 2))\<rparr>,
                 \<lparr>request = Some (\<lambda>q. Some q), response = None\<rparr>,
                 \<lparr>request = None,
                  response = Some (\<lambda>r q. if r = 5 then None else Some (r + 1))\<rparr>]]"]
        handleResponse_reverse_fold_original_fallback
          [of "\<lparr>interceptors = 0\<rparr>" "5::nat" "None :: nat option"
              "[[\<lparr>request = None,
                  response = Some (\<lambda>r q. if r = 105 then None else Some (r * 2))\<rparr>,
                 \<lparr>request = None, response = Some (\<lambda>r q. Some (r + 100))\<rparr>]]"]
  by simp

text \<open>
  C2. Whatever interceptors are registered and whatever the initial request,
  \<^verbatim>\<open>handleRequest\<close> throws nothing and returns the fold of \<open>request_chain\<close> over the
  registered list: the interceptors that have a \<^verbatim>\<open>request\<close> function run in registration
  order, each on the accumulator the one before left; one that returns nothing leaves the
  accumulator as it is; the last accumulator is the result.
\<close>

theorem handleRequest_registration_order_fold:
  "fst (handleRequest this req h) = Inr (request_chain (h ! interceptors this) req)"
  by (simp add: handleRequest_def Array_filter_def Array_reduce_def reduce_request_filter
      del: not_None_eq)

text \<open>
  Adding one, a response-only interceptor, one that returns nothing, doubling: from 3
  the result is \<open>(3 + 1) * 2\<close>, not \<open>3 * 2 + 1\<close>.
\<close>

theorem handleRequest_registration_order_fold_witness:
  "fst (handleRequest \<lparr>interceptors = 0\<rparr> (3::nat)
          [[\<lparr>request = Some (\<lambda>q. Some (q + 1)), response = None\<rparr>,
            \<lparr>request = None, response = Some (\<lambda>(r::nat) q. Some r)\<rparr>,
            \<lparr>request = Some (\<lambda>q. None), response = None\<rparr>,
            \<lparr>request = Some (\<lambda>q. Some (q * 2)), response = None\<rparr>]])
     = Inr 8"
  using handleRequest_registration_order_fold
          [of "\<lparr>interceptors = 0\<rparr>" "3::nat"
              "[[\<lparr>request = Some (\<lambda>q. Some (q + 1)), response = None\<rparr>,
                 \<lparr>request = None, response = Some (\<lambda>(r::nat) q. Some r)\<rparr>,
                 \<lparr>request = Some (\<lambda>q. None), response = None\<rparr>,
                 \<lparr>request = Some (\<lambda>q. Some (q * 2)), response = None\<rparr>]]"]
  by simp

text \<open>
  C10. For a provider whose array is in the store, neither \<^verbatim>\<open>handleRequest\<close> nor
  \<^verbatim>\<open>handleResponse\<close> changes the array that \<^verbatim>\<open>getInterceptors\<close> returns: it has the
  same elements in the same order afterwards. \<^verbatim>\<open>filter\<close> allocates the array that
  \<^verbatim>\<open>reverse\<close> then reverses in place.
\<close>

theorem handlers_leave_interceptors_unchanged:
  assumes "interceptors this < length h"
  shows "snd (handleRequest this req h) ! getInterceptors this = h ! getInterceptors this
       \<and> snd (handleResponse this res rq h) ! getInterceptors this = h ! getInterceptors this"
  using assms
  by (simp add: handleRequest_store handleResponse_store getInterceptors_def nth_append)

theorem handlers_leave_interceptors_unchanged_witness:
  "interceptors \<lparr>interceptors = 0\<rparr> <
     length [[\<lparr>request = Some (\<lambda>q. Some (q + 1)), response = Some (\<lambda>(r::nat) q. Some (r * 2))\<rparr>,
              \<lparr>request = None, response = Some (\<lambda>(r::nat) (q::nat option). Some (r + 1))\<rparr>]]
   \<and> snd (handleRequest \<lparr>interceptors = 0\<rparr> (3::nat)
            [[\<lparr>request = Some (\<lambda>q. Some (q + 1)), response = Some (\<lambda>(r::nat) q. Some (r * 2))\<rparr>,
              \<lparr>request = None, response = Some (\<lambda>(r::nat) (q::nat option). Some (r + 1))\<rparr>]])
       ! getInterceptors \<lparr>interceptors = 0\<rparr>
     = [\<lparr>request = Some (\<lambda>q. Some (q + 1)), response = Some (\<lambda>(r::nat) q. Some (r * 2))\<rparr>,
        \<lparr>request = None, response = Some (\<lambda>(r::nat) (q::nat option). Some (r + 1))\<rparr>]
   \<and> snd (handleResponse \<lparr>interceptors = 0\<rparr> (3::nat) None
            [[\<lparr>request = Some (\<lambda>q. Some (q + 1)), response = Some (\<lambda>(r::nat) q. Some (r * 2))\<rparr>,
              \<lparr>request = None, response = Some (\<lambda>(r::nat) (q::nat option). Some (r + 1))\<rparr>]])
       ! getInterceptors \<lparr>interceptors = 0\<rparr>
     = [\<lparr>request = Some (\<lambda>q. Some (q + 1)), response = Some (\<lambda>(r::nat) q. Some (r * 2))\<rparr>,
        \<lparr>request = None, response = Some (\<lambda>(r::nat) (q::nat option). Some (r + 1))\<rparr>]"
  using handlers_leave_interceptors_unchanged
          [of "\<lparr>interceptors = 0\<rparr>"
              "[[\<lparr>request = Some (\<lambda>q. Some (q + 1)), response = Some (\<lambda>(r::nat) q. Some (r * 2))\<rparr>,
                 \<lparr>request = None, response = Some (\<lambda>(r::nat) (q::nat option). Some (r + 1))\<rparr>]]"
              "3::nat" "3::nat" "None"]
  by (simp add: getInterceptors_def)

subsection \<open>\<^verbatim>\<open>addResponseErrorInterceptor\<close>\<close>

lemma addResponseErrorInterceptor_browser_event:
  "event = EventUndefined \<or> event = EventDom \<Longrightarrow> interceptors this < length h \<Longrightarrow>
     snd (addResponseErrorInterceptor event f this h) ! interceptors this
       = h ! interceptors this @ [\<lparr>request = None, response = Some (\<lambda>res rq. None)\<rparr>]"
  by (auto simp: addResponseErrorInterceptor_def addInterceptor_def Array_push_def)

text \<open>
  C3, at a failed response. The response has status 500, so it is a failed outcome. The
  provider has the one interceptor that \<^verbatim>\<open>addResponseErrorInterceptor(fn)\<close> registers,
  where \<open>fn\<close> answers every response with a recovered one, and the global \<^verbatim>\<open>event\<close> is
  \<^verbatim>\<open>undefined\<close> or a DOM event. \<^verbatim>\<open>handleResponse\<close> returns the failed response as it
  came: \<open>fn\<close> has not run, because the wrapper tests the global and not its parameter.
\<close>

theorem error_interceptor_skips_failed_response:
  "failed_response (HttpResponse 500 ''boom'')
   \<and> fst (handleResponse
        (fst (addResponseErrorInterceptor EventUndefined
                (\<lambda>res. Some (HttpResponse 200 ''recovered''))
                (fst (RebirthHttpProvider_new ([] :: (HttpRequest, HttpEvent) store)))
                (snd (RebirthHttpProvider_new []))))
        (HttpResponse 500 ''boom'') None
        (snd (addResponseErrorInterceptor EventUndefined
                (\<lambda>res. Some (HttpResponse 200 ''recovered''))
                (fst (RebirthHttpProvider_new ([] :: (HttpRequest, HttpEvent) store)))
                (snd (RebirthHttpProvider_new [])))))
     = Inr (HttpResponse 500 ''boom'')
   \<and> fst (handleResponse
        (fst (addResponseErrorInterceptor EventDom
                (\<lambda>res. Some (HttpResponse 200 ''recovered''))
                (fst (RebirthHttpProvider_new ([] :: (HttpRequest, HttpEvent) store)))
                (snd (RebirthHttpProvider_new []))))
        (HttpResponse 500 ''boom'') None
        (snd (addResponseErrorInterceptor EventDom
                (\<lambda>res. Some (HttpResponse 200 ''recovered''))
                (fst (RebirthHttpProvider_new ([] :: (HttpRequest, HttpEvent) store)))
                (snd (RebirthHttpProvider_new [])))))
     = Inr (HttpResponse 500 ''boom'')"
  by (simp add: failed_response_def handleResponse_def addResponseErrorInterceptor_def
      addInterceptor_def RebirthHttpProvider_new_def Array_new_def Array_push_def
      Array_filter_def Array_reverse_def Array_reduce_def)

subsection \<open>\<^verbatim>\<open>baseUrl\<close>\<close>

lemma replace_trailing_slash_cases:
  "host = replace_trailing_slash host \<and> \<not> ends_with_slash host
   \<or> host = replace_trailing_slash host @ ''/'' \<and> ends_with_slash host"
proof (cases host rule: rev_cases)
  case Nil
  then show ?thesis by (simp add: replace_trailing_slash_def ends_with_slash_def)
next
  case (snoc ys y)
  then show ?thesis by (auto simp: replace_trailing_slash_def ends_with_slash_def)
qed

lemma replace_leading_slash_cases:
  "u = replace_leading_slash u \<and> \<not> starts_with_slash u
   \<or> u = ''/'' @ replace_leading_slash u \<and> starts_with_slash u"
  by (cases u) (auto simp: replace_leading_slash_def starts_with_slash_def)

text \<open>
  The captured \<^verbatim>\<open>host\<close> is reassigned at every rewrite: of a host with two trailing
  slashes the first rewrite strips one and the second strips the other.
\<close>

lemma baseUrl_request_twice:
  "baseUrl_request [] ''h//''
      \<lparr>req_method = ''GET'', req_url = ''a'', req_headers = [], req_body = JNull\<rparr>
     = (''h/'', \<lparr>req_method = ''GET'', req_url = ''h//a'', req_headers = [], req_body = JNull\<rparr>)
   \<and> baseUrl_request [] ''h/''
      \<lparr>req_method = ''GET'', req_url = ''b'', req_headers = [], req_body = JNull\<rparr>
     = (''h'', \<lparr>req_method = ''GET'', req_url = ''h/b'', req_headers = [], req_body = JNull\<rparr>)"
  by code_simp

text \<open>
  C4, as the code has it. In one call of the interceptor that \<^verbatim>\<open>baseUrl\<close> registers,
  with \<open>host\<close> the value its captured variable holds: a URL that begins with \<^verbatim>\<open>http:\<close>
  or \<^verbatim>\<open>https:\<close> is left as it is; so is a URL that an exclude pattern matches; any other
  URL becomes \<open>h + '/' + p\<close>, where \<open>h\<close> is the host less one trailing slash if it has
  one and \<open>p\<close> is the URL less one leading slash if it has one. The join has exactly one
  slash when \<open>h\<close> does not still end with a slash and \<open>p\<close> does not still begin with
  one.
\<close>

theorem baseUrl_request_rewrite:
  "(test_http_scheme (req_url req) \<longrightarrow> snd (baseUrl_request excludes host req) = req)
   \<and> (list_ex (\<lambda>t. t (req_url req)) excludes \<longrightarrow> snd (baseUrl_request excludes host req) = req)
   \<and> (\<not> test_http_scheme (req_url req) \<and> \<not> list_ex (\<lambda>t. t (req_url req)) excludes \<longrightarrow>
        snd (baseUrl_request excludes host req)
          = req\<lparr>req_url := replace_trailing_slash host @ ''/'' @ replace_leading_slash (req_url req)\<rparr>
        \<and> (host = replace_trailing_slash host \<or> host = replace_trailing_slash host @ ''/'')
        \<and> (req_url req = replace_leading_slash (req_url req)
             \<or> req_url req = ''/'' @ replace_leading_slash (req_url req))
        \<and> (\<not> ends_with_slash (replace_trailing_slash host)
             \<and> \<not> starts_with_slash (replace_leading_slash (req_url req)) \<longrightarrow>
             one_slash_join host (req_url req)
               (req_url (snd (baseUrl_request excludes host req)))))"
  using replace_trailing_slash_cases [of host] replace_leading_slash_cases [of "req_url req"]
  by (auto simp: baseUrl_request_def Let_def one_slash_join_def)

text \<open>
  An absolute URL, a URL that the exclude pattern \<^verbatim>\<open>/^\/assets/\<close> matches, and
  \<^verbatim>\<open>/users\<close> under the host \<^verbatim>\<open>http://api.test/\<close>.
\<close>

theorem baseUrl_request_rewrite_witness:
  "snd (baseUrl_request [] ''http://api.test/''
      \<lparr>req_method = ''GET'', req_url = ''http://existing.com/x'', req_headers = [],
       req_body = JNull\<rparr>)
     = \<lparr>req_method = ''GET'', req_url = ''http://existing.com/x'', req_headers = [],
        req_body = JNull\<rparr>
   \<and> snd (baseUrl_request [\<lambda>u. take 7 u = ''/assets''] ''http://api.test/''
      \<lparr>req_method = ''GET'', req_url = ''/assets/logo.png'', req_headers = [],
       req_body = JNull\<rparr>)
     = \<lparr>req_method = ''GET'', req_url = ''/assets/logo.png'', req_headers = [],
        req_body = JNull\<rparr>
   \<and> snd (baseUrl_request [\<lambda>u. take 7 u = ''/assets''] ''http://api.test/''
      \<lparr>req_method = ''GET'', req_url = ''/users'', req_headers = [], req_body = JNull\<rparr>)
     = \<lparr>req_method = ''GET'', req_url = ''http://api.test/users'', req_headers = [],
        req_body = JNull\<rparr>
   \<and> one_slash_join ''http://api.test/'' ''/users'' ''http://api.test/users''"
  using baseUrl_request_rewrite
          [of "\<lparr>req_method = ''GET'', req_url = ''http://existing.com/x'', req_headers = [],
                req_body = JNull\<rparr>" "[]" "''http://api.test/''"]
        baseUrl_request_rewrite
          [of "\<lparr>req_method = ''GET'', req_url = ''/assets/logo.png'', req_headers = [],
                req_body = JNull\<rparr>" "[\<lambda>u. take 7 u = ''/assets'']" "''http://api.test/''"]
        baseUrl_request_rewrite
          [of "\<lparr>req_method = ''GET'', req_url = ''/users'', req_headers = [],
                req_body = JNull\<rparr>" "[\<lambda>u. take 7 u = ''/assets'']" "''http://api.test/''"]
  by (auto simp: test_http_scheme_def replace_trailing_slash_def replace_leading_slash_def
      ends_with_slash_def starts_with_slash_def)

text \<open>
  C4 as the specification states it fails for a host that ends with two slashes: one is
  stripped, one stays, and the join has two.
\<close>

theorem baseUrl_double_slash_counterexample:
  "req_url (snd (baseUrl_request [] ''http://api.test//''
      \<lparr>req_method = ''GET'', req_url = ''users'', req_headers = [], req_body = JNull\<rparr>))
     = ''http://api.test//users''
   \<and> \<not> one_slash_join ''http://api.test//'' ''users''
        (req_url (snd (baseUrl_request [] ''http://api.test//''
          \<lparr>req_method = ''GET'', req_url = ''users'', req_headers = [], req_body = JNull\<rparr>)))"
  by code_simp

subsection \<open>\<^verbatim>\<open>headers\<close>\<close>

lemma map_of_Map_set: "map_of (Map_set k v ps) = (map_of ps)(k \<mapsto> v)"
  by (induction ps) auto

lemma getAll_set_other:
  "toLowerCase n \<noteq> toLowerCase m \<Longrightarrow>
     HttpHeaders_getAll (HttpHeaders_set hs m v) n = HttpHeaders_getAll hs n"
  by (simp add: HttpHeaders_getAll_def HttpHeaders_set_def map_of_Map_set)

lemma getAll_set_same:
  "v \<noteq> [] \<Longrightarrow> toLowerCase n = toLowerCase m \<Longrightarrow>
     HttpHeaders_getAll (HttpHeaders_set hs m v) n = Some v"
  by (simp add: HttpHeaders_getAll_def HttpHeaders_set_def map_of_Map_set)

lemma getAll_foldl_set_other:
  "toLowerCase n \<notin> set (map (\<lambda>kv. toLowerCase (fst kv)) kvs) \<Longrightarrow>
     HttpHeaders_getAll (foldl (\<lambda>hs (name, v). HttpHeaders_set hs name v) hs kvs) n
       = HttpHeaders_getAll hs n"
  by (induction kvs arbitrary: hs) (auto simp: getAll_set_other)

lemma getAll_foldl_set_same:
  "distinct (map (\<lambda>kv. toLowerCase (fst kv)) kvs) \<Longrightarrow> (m, v) \<in> set kvs \<Longrightarrow> v \<noteq> [] \<Longrightarrow>
     toLowerCase n = toLowerCase m \<Longrightarrow>
     HttpHeaders_getAll (foldl (\<lambda>hs (name, v). HttpHeaders_set hs name v) hs kvs) n = Some v"
proof (induction kvs arbitrary: hs)
  case Nil
  then show ?case by simp
next
  case (Cons kv kvs)
  show ?case
  proof (cases "(m, v) \<in> set kvs")
    case True
    with Cons show ?thesis by simp
  next
    case False
    with Cons.prems have kv: "kv = (m, v)" by simp
    from Cons.prems kv have "toLowerCase n \<notin> set (map (\<lambda>kv. toLowerCase (fst kv)) kvs)"
      by simp
    then show ?thesis
      using Cons.prems kv by (simp add: getAll_foldl_set_other getAll_set_same)
  qed
qed

lemma handleRequest_after_headers:
  "fst (handleRequest
          (fst (headers hdrs (fst (RebirthHttpProvider_new h0)) (snd (RebirthHttpProvider_new h0))))
          req
          (snd (headers hdrs (fst (RebirthHttpProvider_new h0)) (snd (RebirthHttpProvider_new h0)))))
     = Inr (clone_setHeaders req hdrs)"
  by (simp add: handleRequest_def headers_def addInterceptor_def RebirthHttpProvider_new_def
      Array_new_def Array_push_def Array_filter_def Array_reduce_def nth_append)

text \<open>
  C5, as the code has it. A new provider with the interceptor of \<^verbatim>\<open>headers(map)\<close> turns
  every request into its copy with the headers of the map set. The values of a header
  name that is not in the map (names compared in lower case) stay as they were. A name of
  the map, when the names of the map are distinct in lower case and its value is not
  empty, ends with exactly the value of the map: what the request carried under that name
  is replaced, not kept beside it.
\<close>

theorem headers_interceptor_replaces_same_name:
  "fst (handleRequest
          (fst (headers hdrs (fst (RebirthHttpProvider_new h0)) (snd (RebirthHttpProvider_new h0))))
          req
          (snd (headers hdrs (fst (RebirthHttpProvider_new h0)) (snd (RebirthHttpProvider_new h0)))))
     = Inr (clone_setHeaders req hdrs)
   \<and> (toLowerCase n \<notin> set (map (\<lambda>kv. toLowerCase (fst kv)) hdrs) \<longrightarrow>
        HttpHeaders_getAll (req_headers (clone_setHeaders req hdrs)) n
          = HttpHeaders_getAll (req_headers req) n)
   \<and> (distinct (map (\<lambda>kv. toLowerCase (fst kv)) hdrs) \<and> (n, v) \<in> set hdrs \<and> v \<noteq> [] \<longrightarrow>
        HttpHeaders_getAll (req_headers (clone_setHeaders req hdrs)) n = Some v)"
  using handleRequest_after_headers [of hdrs h0 req]
  by (auto simp: clone_setHeaders_def getAll_foldl_set_other getAll_foldl_set_same)

text \<open>
  A request with \<^verbatim>\<open>Authorization: Y\<close> and \<^verbatim>\<open>X-Trace: 1\<close> under the map
  \<^verbatim>\<open>{Authorization: "X", Accept: "json"}\<close>: the trace header stays, the authorization
  is \<^verbatim>\<open>X\<close> alone.
\<close>

theorem headers_interceptor_replaces_same_name_witness:
  "HttpHeaders_getAll (req_headers (clone_setHeaders
       \<lparr>req_method = ''GET'', req_url = ''/x'',
        req_headers = [(''authorization'', [''Y'']), (''x-trace'', [''1''])], req_body = JNull\<rparr>
       [(''Authorization'', [''X'']), (''Accept'', [''json''])])) ''X-Trace''
     = Some [''1'']
   \<and> HttpHeaders_getAll (req_headers (clone_setHeaders
       \<lparr>req_method = ''GET'', req_url = ''/x'',
        req_headers = [(''authorization'', [''Y'']), (''x-trace'', [''1''])], req_body = JNull\<rparr>
       [(''Authorization'', [''X'']), (''Accept'', [''json''])])) ''Authorization''
     = Some [''X'']"
proof -
  have low: "toLowerCase ''X-Trace'' = ''x-trace''"
    "toLowerCase ''Authorization'' = ''authorization''"
    "toLowerCase ''Accept'' = ''accept''"
    by code_simp+
  show ?thesis
    using headers_interceptor_replaces_same_name
            [of "[(''Authorization'', [''X'']), (''Accept'', [''json''])]"
                "[] :: (HttpRequest, HttpEvent) store"
                "\<lparr>req_method = ''GET'', req_url = ''/x'',
                  req_headers = [(''authorization'', [''Y'']), (''x-trace'', [''1''])],
                  req_body = JNull\<rparr>" "''X-Trace''" "[]"]
          headers_interceptor_replaces_same_name
            [of "[(''Authorization'', [''X'']), (''Accept'', [''json''])]"
                "[] :: (HttpRequest, HttpEvent) store"
                "\<lparr>req_method = ''GET'', req_url = ''/x'',
                  req_headers = [(''authorization'', [''Y'']), (''x-trace'', [''1''])],
                  req_body = JNull\<rparr>" "''Authorization''" "[''X'']"]
    by (simp add: low HttpHeaders_getAll_def)
qed

text \<open>
  C5 as the specification states it fails: a request that carries \<^verbatim>\<open>Authorization: Y\<close>
  leaves the interceptor of \<^verbatim>\<open>headers({Authorization: "X"})\<close> with the one value
  \<^verbatim>\<open>X\<close>, not with the two values \<^verbatim>\<open>Y\<close> and \<^verbatim>\<open>X\<close>.
\<close>

theorem headers_same_name_counterexample:
  "fst (handleRequest
          (fst (headers [(''Authorization'', [''X''])]
                  (fst (RebirthHttpProvider_new ([] :: (HttpRequest, HttpEvent) store)))
                  (snd (RebirthHttpProvider_new []))))
          \<lparr>req_method = ''GET'', req_url = ''/x'',
           req_headers = HttpHeaders_new (Some [(''Authorization'', [''Y''])]), req_body = JNull\<rparr>
          (snd (headers [(''Authorization'', [''X''])]
                  (fst (RebirthHttpProvider_new ([] :: (HttpRequest, HttpEvent) store)))
                  (snd (RebirthHttpProvider_new [])))))
     = Inr \<lparr>req_method = ''GET'', req_url = ''/x'',
            req_headers = [(''authorization'', [''X''])], req_body = JNull\<rparr>
   \<and> HttpHeaders_getAll [(''authorization'', [''X''])] ''Authorization'' \<noteq> Some [''Y'', ''X'']"
  by code_simp

subsection \<open>Headers of an annotated method\<close>

lemma methodBuilder_headers_only_defaults:
  "methodBuilder_headers defaultHeaders descriptor_headers pHeader args
     = HttpHeaders_new defaultHeaders"
  by (simp add: methodBuilder_headers_def Let_def)

text \<open>
  C6, at a method with the class default \<^verbatim>\<open>Accept\<close>, the \<^verbatim>\<open>Headers\<close> annotation
  \<^verbatim>\<open>{"X-Method": "m"}\<close> and a \<^verbatim>\<open>Header("X-Call")\<close> binding called with \<^verbatim>\<open>"c"\<close>. The
  code builds the class default alone; the three stages of the specification give three
  headers.
\<close>

theorem method_and_call_headers_dropped:
  "methodBuilder_headers (Some [(''Accept'', [''application/json''])]) [(''X-Method'', [''m''])]
      (Some [\<lparr>key = Some ''X-Call'', parameterIndex = 0\<rparr>]) [JStr ''c'']
     = [(''accept'', [''application/json''])]
   \<and> staged_headers (Some [(''Accept'', [''application/json''])]) [(''X-Method'', [''m''])]
      (Some [\<lparr>key = Some ''X-Call'', parameterIndex = 0\<rparr>]) [JStr ''c'']
     = [(''accept'', [''application/json'']), (''x-method'', [''m'']), (''x-call'', [''c''])]"
  by code_simp

subsection \<open>Query parameters of an annotated method\<close>

lemma isUndefined_iff: "isUndefined v \<longleftrightarrow> v = JUndefined"
  by (cases v) (simp_all add: isUndefined_def)

lemma isEmpty_iff: "isEmpty v \<longleftrightarrow> v = JUndefined \<or> v = JNull"
  by (cases v) (simp_all add: isEmpty_def)

lemma isObject_iff: "isObject v \<longleftrightarrow> (\<exists>t s. v = JDate t s) \<or> (\<exists>xs. v = JArr xs) \<or> (\<exists>kvs. v = JObj kvs)"
  by (cases v) (simp_all add: isObject_def)

lemma methodBuilder_query_snoc:
  "arg args (parameterIndex p) \<noteq> JUndefined \<Longrightarrow>
     methodBuilder_query (Some (ps @ [p])) args
       = query_reducer args (methodBuilder_query (Some ps) args) p"
  by (simp add: methodBuilder_query_def isUndefined_iff)

text \<open>
  C7, as the code has it. A \<^verbatim>\<open>Query\<close> binding whose argument is \<^verbatim>\<open>undefined\<close> is
  left out: the query is the one built without the binding. A binding whose argument is
  \<^verbatim>\<open>null\<close> or the empty string is not left out: it sets its key to the empty value.
\<close>

theorem query_undefined_omitted_null_and_empty_kept:
  "(arg args (parameterIndex p) = JUndefined \<longrightarrow>
      methodBuilder_query (Some (ps @ p # qs)) args = methodBuilder_query (Some (ps @ qs)) args)
   \<and> (arg args (parameterIndex p) = JNull \<or> arg args (parameterIndex p) = JStr [] \<longrightarrow>
        methodBuilder_query (Some (ps @ [p])) args
          = HttpParams_set (methodBuilder_query (Some ps) args) (key p) []
        \<and> map_of (methodBuilder_query (Some (ps @ [p])) args) (key p) = Some [])"
  by (auto simp: methodBuilder_query_snoc query_reducer_def isEmpty_iff isObject_iff
      HttpParams_set_def map_of_Map_set)
     (simp_all add: methodBuilder_query_def isUndefined_iff)

text \<open>
  Bindings \<open>a\<close>, \<open>b\<close>, \<open>c\<close> with \<open>b\<close> bound to \<^verbatim>\<open>undefined\<close>; bindings \<open>a\<close>, \<open>b\<close> with
  \<open>b\<close> bound to the empty string, and to \<^verbatim>\<open>null\<close>.
\<close>

theorem query_undefined_omitted_null_and_empty_kept_witness:
  "methodBuilder_query (Some ([\<lparr>key = Some ''a'', parameterIndex = 0\<rparr>]
        @ \<lparr>key = Some ''b'', parameterIndex = 1\<rparr> # [\<lparr>key = Some ''c'', parameterIndex = 2\<rparr>]))
      [JStr ''x'', JUndefined, JStr ''z'']
     = [(Some ''a'', ''x''), (Some ''c'', ''z'')]
   \<and> methodBuilder_query (Some ([\<lparr>key = Some ''a'', parameterIndex = 0\<rparr>]
        @ [\<lparr>key = Some ''b'', parameterIndex = 1\<rparr>])) [JStr ''x'', JStr []]
     = [(Some ''a'', ''x''), (Some ''b'', [])]
   \<and> methodBuilder_query (Some ([\<lparr>key = Some ''a'', parameterIndex = 0\<rparr>]
        @ [\<lparr>key = Some ''b'', parameterIndex = 1\<rparr>])) [JStr ''x'', JNull]
     = [(Some ''a'', ''x''), (Some ''b'', [])]"
proof -
  have base:
    "methodBuilder_query (Some [\<lparr>key = Some ''a'', parameterIndex = 0\<rparr>]) [JStr ''x'', JStr []]
       = [(Some ''a'', ''x'')]"
    "methodBuilder_query (Some [\<lparr>key = Some ''a'', parameterIndex = 0\<rparr>]) [JStr ''x'', JNull]
       = [(Some ''a'', ''x'')]"
    "methodBuilder_query
       (Some [\<lparr>key = Some ''a'', parameterIndex = 0\<rparr>, \<lparr>key = Some ''c'', parameterIndex = 2\<rparr>])
       [JStr ''x'', JUndefined, JStr ''z'']
       = [(Some ''a'', ''x''), (Some ''c'', ''z'')]"
    by code_simp+
  show ?thesis
    using query_undefined_omitted_null_and_empty_kept
            [of "[JStr ''x'', JUndefined, JStr ''z'']" "\<lparr>key = Some ''b'', parameterIndex = 1\<rparr>"
                "[\<lparr>key = Some ''a'', parameterIndex = 0\<rparr>]"
                "[\<lparr>key = Some ''c'', parameterIndex = 2\<rparr>]"]
          query_undefined_omitted_null_and_empty_kept
            [of "[JStr ''x'', JStr []]" "\<lparr>key = Some ''b'', parameterIndex = 1\<rparr>"
                "[\<lparr>key = Some ''a'', parameterIndex = 0\<rparr>]" "[]"]
          query_undefined_omitted_null_and_empty_kept
            [of "[JStr ''x'', JNull]" "\<lparr>key = Some ''b'', parameterIndex = 1\<rparr>"
                "[\<lparr>key = Some ''a'', parameterIndex = 0\<rparr>]" "[]"]
    by (simp add: base arg_def HttpParams_set_def)
qed

text \<open>
  C7 as the specification states it fails for \<^verbatim>\<open>null\<close>: the binding is in the query,
  with the empty value.
\<close>

theorem query_null_counterexample:
  "methodBuilder_query (Some [\<lparr>key = Some ''q'', parameterIndex = 0\<rparr>]) [JNull]
     = [(Some ''q'', [])]
   \<and> map_of (methodBuilder_query (Some [\<lparr>key = Some ''q'', parameterIndex = 0\<rparr>]) [JNull])
         (Some ''q'')
       \<noteq> None"
  by code_simp

lemma query_reducer_Date:
  "arg args (parameterIndex p) = JDate t s \<Longrightarrow>
     query_reducer args ps p = HttpParams_set ps (key p) (show_int t)"
  by (simp add: query_reducer_def)

lemma query_reducer_Array:
  "arg args (parameterIndex p) = JArr xs \<Longrightarrow>
     query_reducer args ps p = HttpParams_set ps (key p) (Array_join xs)"
  by (simp add: query_reducer_def)

lemma HttpParams_set_last_wins:
  "HttpParams_set (HttpParams_set ps k v) k w = HttpParams_set ps k w"
  by (induction ps) (auto simp: HttpParams_set_def)

lemma foldl_const_last:
  "kvs \<noteq> [] \<Longrightarrow> foldl (\<lambda>result kv. g kv) z kvs = g (last kvs)"
  by (induction kvs arbitrary: z) auto

text \<open>Of an object only the last own key reaches the query.\<close>

lemma query_reducer_object_last_key_only:
  "arg args (parameterIndex p) = JObj kvs \<Longrightarrow> kvs \<noteq> [] \<Longrightarrow>
     query_reducer args ps p
       = HttpParams_set ps (Some (fst (last kvs))) (toString (snd (last kvs)))"
  using foldl_const_last [of kvs "\<lambda>kv. HttpParams_set ps (Some (fst kv)) (toString (snd kv))" ps]
  by (simp add: query_reducer_def isObject_iff case_prod_unfold)

text \<open>
  C8, at a \<^verbatim>\<open>Query\<close> binding called with the object \<^verbatim>\<open>{a: 1, b: 2}\<close>. The code builds
  the query \<^verbatim>\<open>b=2\<close>; the flattening of the specification gives \<^verbatim>\<open>a=1&b=2\<close>.
\<close>

theorem object_argument_keeps_last_key_only:
  "methodBuilder_query (Some [\<lparr>key = Some ''filter'', parameterIndex = 0\<rparr>])
      [JObj [(''a'', JNum 1), (''b'', JNum 2)]]
     = [(Some ''b'', ''2'')]
   \<and> flatten_object [] [(''a'', JNum 1), (''b'', JNum 2)]
     = [(Some ''a'', ''1''), (Some ''b'', ''2'')]"
  by code_simp

subsection \<open>Parameter decorators\<close>

text \<open>
  The decorator of \<^verbatim>\<open>Body\<close> exists, and the binding it records has the key
  \<^verbatim>\<open>"Body"\<close>.
\<close>

lemma Body_has_fixed_key:
  "(\<exists>d. Body = Inr d)
   \<and> (case Body of
         Inl e \<Rightarrow> False
       | Inr d \<Rightarrow> d (\<lambda>m. None) ''save'' 0 ''save_Body_parameters''
                   = Some [\<lparr>key = Some ''Body'', parameterIndex = 0\<rparr>])"
  by (simp add: Body_def paramBuilder_def falsy_key_def)

text \<open>
  C9, as the code has it. \<^verbatim>\<open>Path\<close> and \<^verbatim>\<open>Header\<close> with no key throw at once, with the
  message that names the role; \<^verbatim>\<open>Query\<close> with no key returns its decorator; \<^verbatim>\<open>Body\<close>,
  which is declared without a key because its key is fixed to \<^verbatim>\<open>"Body"\<close>, returns its
  decorator too. So for every role, the declaration of a binding with no key succeeds if
  and only if the role is \<^verbatim>\<open>Query\<close> or \<^verbatim>\<open>Body\<close>.
\<close>

theorem key_required_for_Path_and_Header:
  "((\<exists>d. declare_binding r None = Inr d) \<longleftrightarrow> r = QueryRole \<or> r = BodyRole)
   \<and> Path None = Inl (Error ''Path Key is required!'')
   \<and> Header None = Inl (Error ''Header Key is required!'')
   \<and> (\<exists>d. Query None = Inr d)
   \<and> (\<exists>d. Body = Inr d)"
  by (cases r)
     (simp_all add: Path_def Query_def Header_def Body_def paramBuilder_def falsy_key_def)

theorem key_required_for_Path_and_Header_witness:
  "\<not> (\<exists>d. declare_binding PathRole None = Inr d)
   \<and> \<not> (\<exists>d. declare_binding HeaderRole None = Inr d)
   \<and> (\<exists>d. declare_binding BodyRole None = Inr d)
   \<and> (\<exists>d. declare_binding QueryRole None = Inr d)"
  using key_required_for_Path_and_Header [of PathRole]
    key_required_for_Path_and_Header [of HeaderRole]
    key_required_for_Path_and_Header [of BodyRole]
    key_required_for_Path_and_Header [of QueryRole]
  by simp

text \<open>
  C9 as the specification states it fails at the \<^verbatim>\<open>Body\<close> role: its declaration has no
  key and succeeds, and the role is not \<^verbatim>\<open>Query\<close>.
\<close>

theorem Body_without_key_counterexample:
  "(\<exists>d. declare_binding BodyRole None = Inr d) \<and> BodyRole \<noteq> QueryRole
   \<and> \<not> ((\<exists>d. declare_binding BodyRole None = Inr d) \<longleftrightarrow> BodyRole = QueryRole)"
  by (simp add: Body_def paramBuilder_def falsy_key_def)

end
